theory Spec2Isabelle
  imports Main "HOL-Library.Sublist"
begin

section \<open>JavaScript strings and numbers\<close>

text \<open>
  A JavaScript string is modelled as a \<open>string\<close>, one \<open>char\<close> per code unit; the model
  covers code units below 128 (ASCII), which is the alphabet of a machine-readable zone.
  Reading a string at an index beyond its end gives \<open>undefined\<close>, here \<open>None\<close>.
  A JavaScript number that may be \<open>NaN\<close> is an \<open>int option\<close>, with \<open>None\<close> for \<open>NaN\<close>.
\<close>

definition char_at :: "string \<Rightarrow> nat \<Rightarrow> char option" where
  "char_at s i = (if i < length s then Some (s ! i) else None)"

text \<open>\<open>s.substring(a, b)\<close> for \<open>a \<le> b\<close>, which is how every call of the source uses it.\<close>

definition substring :: "string \<Rightarrow> nat \<Rightarrow> nat \<Rightarrow> string" where
  "substring s a b = take (b - a) (drop a s)"

definition is_digit :: "char \<Rightarrow> bool" where
  "is_digit c = (48 \<le> (of_char c :: nat) \<and> (of_char c :: nat) \<le> 57)"

definition is_upper :: "char \<Rightarrow> bool" where
  "is_upper c = (65 \<le> (of_char c :: nat) \<and> (of_char c :: nat) \<le> 90)"

definition is_lower :: "char \<Rightarrow> bool" where
  "is_lower c = (97 \<le> (of_char c :: nat) \<and> (of_char c :: nat) \<le> 122)"

text \<open>White space as \<open>trim\<close>, \<open>parseInt\<close> and the class \<open>\s\<close> see it: tab, line feed,
  vertical tab, form feed, carriage return and space.\<close>

definition is_space :: "char \<Rightarrow> bool" where
  "is_space c = ((9 \<le> (of_char c :: nat) \<and> (of_char c :: nat) \<le> 13) \<or> (of_char c :: nat) = 32)"

definition trim :: "string \<Rightarrow> string" where
  "trim s = rev (dropWhile is_space (rev (dropWhile is_space s)))"

definition toLowerCase :: "string \<Rightarrow> string" where
  "toLowerCase s = map (\<lambda>c. if is_upper c then char_of ((of_char c :: nat) + 32) else c) s"

definition toUpperCase :: "string \<Rightarrow> string" where
  "toUpperCase s = map (\<lambda>c. if is_lower c then char_of ((of_char c :: nat) - 32) else c) s"

text \<open>\<open>s.replace(/</g, '')\<close> and \<open>s.replace(/</g, ' ')\<close>.\<close>

definition remove_fillers :: "string \<Rightarrow> string" where
  "remove_fillers s = filter (\<lambda>c. c \<noteq> CHR ''<'') s"

definition fillers_to_spaces :: "string \<Rightarrow> string" where
  "fillers_to_spaces s = map (\<lambda>c. if c = CHR ''<'' then CHR '' '' else c) s"

text \<open>\<open>s.split('<<')\<close>: the pieces between the occurrences of the separator, found from
  left to right without overlap; the empty string gives one empty piece.\<close>

fun split_fillers :: "string \<Rightarrow> string \<Rightarrow> string list" where
  "split_fillers acc [] = [rev acc]"
| "split_fillers acc [c] = [rev (c # acc)]"
| "split_fillers acc (c # d # cs) =
     (if c = CHR ''<'' \<and> d = CHR ''<'' then rev acc # split_fillers [] cs
      else split_fillers (c # acc) (d # cs))"

text \<open>\<open>s.split(sep)\<close> for a separator of one character.\<close>

fun split_char :: "char \<Rightarrow> string \<Rightarrow> string \<Rightarrow> string list" where
  "split_char sep acc [] = [rev acc]"
| "split_char sep acc (c # cs) =
     (if c = sep then rev acc # split_char sep [] cs else split_char sep (c # acc) cs)"

text \<open>\<open>xs[i]\<close> on an array: \<open>undefined\<close> beyond the end.\<close>

definition nth_opt :: "'a list \<Rightarrow> nat \<Rightarrow> 'a option" where
  "nth_opt xs i = (if i < length xs then Some (xs ! i) else None)"

text \<open>\<open>haystack.includes(needle)\<close> on strings.\<close>

fun str_includes :: "string \<Rightarrow> string \<Rightarrow> bool" where
  "str_includes [] needle = (needle = [])"
| "str_includes (c # cs) needle = (prefix needle (c # cs) \<or> str_includes cs needle)"

text \<open>Decimal rendering of a number in a template literal.\<close>

definition digit_char :: "nat \<Rightarrow> char" where
  "digit_char d = char_of (48 + d)"

fun show_nat :: "nat \<Rightarrow> string" where
  "show_nat n = (if n < 10 then [digit_char n] else show_nat (n div 10) @ [digit_char (n mod 10)])"

declare show_nat.simps [simp del]

definition show_int :: "int \<Rightarrow> string" where
  "show_int i = (if i < 0 then CHR ''-'' # show_nat (nat (- i)) else show_nat (nat i))"

definition show_number :: "int option \<Rightarrow> string" where
  "show_number x = (case x of None \<Rightarrow> ''NaN'' | Some i \<Rightarrow> show_int i)"

definition show_char_opt :: "char option \<Rightarrow> string" where
  "show_char_opt x = (case x of None \<Rightarrow> ''undefined'' | Some c \<Rightarrow> [c])"

text \<open>\<open>parseInt(s)\<close> without a radix: leading white space is skipped, then an optional
  sign, then a \<open>0x\<close> prefix selects base 16; the longest run of digits of the base is
  read, and no digit at all gives \<open>NaN\<close>.\<close>

definition is_hex_digit :: "char \<Rightarrow> bool" where
  "is_hex_digit c = (is_digit c \<or> (65 \<le> (of_char c :: nat) \<and> (of_char c :: nat) \<le> 70)
     \<or> (97 \<le> (of_char c :: nat) \<and> (of_char c :: nat) \<le> 102))"

definition hex_value :: "char \<Rightarrow> nat" where
  "hex_value c = (if is_digit c then of_char c - 48
     else if is_upper c then of_char c - 55 else of_char c - 87)"

definition digits_value :: "nat \<Rightarrow> string \<Rightarrow> int" where
  "digits_value base ds = int (foldl (\<lambda>n c. n * base + hex_value c) 0 ds)"

definition parse_digits :: "int \<Rightarrow> string \<Rightarrow> int option" where
  "parse_digits sign s =
     (if substring s 0 2 = ''0x'' \<or> substring s 0 2 = ''0X'' then
        (let ds = takeWhile is_hex_digit (drop 2 s)
         in if ds = [] then None else Some (sign * digits_value 16 ds))
      else
        (let ds = takeWhile is_digit s
         in if ds = [] then None else Some (sign * digits_value 10 ds)))"

definition parseInt :: "string \<Rightarrow> int option" where
  "parseInt s =
     (case dropWhile is_space s of
        [] \<Rightarrow> None
      | c # cs \<Rightarrow>
          if c = CHR ''-'' then parse_digits (- 1) cs
          else if c = CHR ''+'' then parse_digits 1 cs
          else parse_digits 1 (c # cs))"

text \<open>\<open>parseInt(s[i])\<close>: the argument \<open>undefined\<close> reads as the text \<open>undefined\<close>,
  which has no digit.\<close>

definition parseInt_char :: "char option \<Rightarrow> int option" where
  "parseInt_char x = (case x of None \<Rightarrow> None | Some c \<Rightarrow> parseInt [c])"

section \<open>The MRZ validator\<close>

definition WEIGHTS :: "nat list" where
  "WEIGHTS = [7, 3, 1]"

definition charValue :: "char \<Rightarrow> nat" where
  "charValue c =
     (if is_digit c then (case parseInt [c] of Some n \<Rightarrow> nat n | None \<Rightarrow> 0)
      else if is_upper c then of_char c - 65 + 10
      else if c = CHR ''<'' then 0
      else 0)"

text \<open>The loop of \<open>calculateCheckDigit\<close>: \<open>i\<close> is the index of the next character and
  \<open>acc\<close> the running \<open>sum\<close>.\<close>

fun check_loop :: "nat \<Rightarrow> nat \<Rightarrow> string \<Rightarrow> nat" where
  "check_loop i acc [] = acc"
| "check_loop i acc (c # cs) = check_loop (Suc i) (acc + charValue c * WEIGHTS ! (i mod 3)) cs"

definition calculateCheckDigit :: "string \<Rightarrow> nat" where
  "calculateCheckDigit data = check_loop 0 0 data mod 10"

text \<open>The property bag \<open>parsedData\<close>: a property that was never assigned, or that holds
  \<open>undefined\<close>, is \<open>None\<close>.\<close>

record parsedData =
  mrz_documentType :: "string option"
  mrz_issuingCountry :: "string option"
  mrz_surname :: "string option"
  mrz_givenNames :: "string option"
  mrz_documentNumber :: "string option"
  mrz_nationality :: "string option"
  mrz_dateOfBirth :: "string option"
  mrz_sex :: "string option"
  mrz_expiryDate :: "string option"

definition empty_parsedData :: parsedData where
  "empty_parsedData =
     \<lparr>mrz_documentType = None, mrz_issuingCountry = None, mrz_surname = None,
      mrz_givenNames = None, mrz_documentNumber = None, mrz_nationality = None,
      mrz_dateOfBirth = None, mrz_sex = None, mrz_expiryDate = None\<rparr>"

record mrz_result =
  valid :: bool
  errors :: "string list"
  parsedData :: parsedData

definition parseMRZDate :: "string \<Rightarrow> string" where
  "parseMRZDate mrzDate =
     (if length mrzDate \<noteq> 6 then ''''
      else
        (let year = parseInt (substring mrzDate 0 2);
             month = substring mrzDate 2 4;
             day = substring mrzDate 4 6;
             fullYear = (case year of None \<Rightarrow> None
                         | Some y \<Rightarrow> if y > 50 then Some (1900 + y) else Some (2000 + y))
         in show_number fullYear @ ''-'' @ month @ ''-'' @ day))"

text \<open>The test \<open>check !== '<' && parseInt(check) !== calc\<close> that guards every
  check-digit error.\<close>

definition check_digit_fails :: "char option \<Rightarrow> nat \<Rightarrow> bool" where
  "check_digit_fails chk calc = (chk \<noteq> Some CHR ''<'' \<and> parseInt_char chk \<noteq> Some (int calc))"

definition push_if :: "bool \<Rightarrow> string \<Rightarrow> string list \<Rightarrow> string list" where
  "push_if b e errs = (if b then errs @ [e] else errs)"

definition line_length_error :: "nat \<Rightarrow> nat \<Rightarrow> nat \<Rightarrow> string" where
  "line_length_error k n expected =
     ''Line '' @ show_nat k @ '' length invalid: '' @ show_nat n @ '', expected '' @ show_nat expected"

definition check_digit_error :: "string \<Rightarrow> nat \<Rightarrow> char option \<Rightarrow> string" where
  "check_digit_error field calc chk =
     field @ '' check digit failed: expected '' @ show_nat calc @ '', got '' @ show_char_opt chk"

text \<open>The name part of a line: the piece before the first \<open><<\<close> is the surname, the
  piece after it the given names.\<close>

definition name_piece :: "string option \<Rightarrow> string" where
  "name_piece p = (case p of None \<Rightarrow> '''' | Some s \<Rightarrow> trim (fillers_to_spaces s))"

definition validateTD3 :: "string list \<Rightarrow> string list \<Rightarrow> parsedData \<Rightarrow> mrz_result" where
  "validateTD3 mrzLines errors0 parsedData0 =
     (let line1 = mrzLines ! 0;
          line2 = mrzLines ! 1;
          e1 = push_if (length line1 \<noteq> 44) (line_length_error 1 (length line1) 44) errors0;
          e2 = push_if (length line2 \<noteq> 44) (line_length_error 2 (length line2) 44) e1;
          names = split_fillers [] (substring line1 5 44);
          docNumCheck = char_at line2 9;
          docNumCalc = calculateCheckDigit (substring line2 0 9);
          e3 = push_if (check_digit_fails docNumCheck docNumCalc)
                 (check_digit_error ''Document number'' docNumCalc docNumCheck) e2;
          dobStr = substring line2 13 19;
          dobCheck = char_at line2 19;
          dobCalc = calculateCheckDigit dobStr;
          e4 = push_if (check_digit_fails dobCheck dobCalc)
                 (check_digit_error ''Date of birth'' dobCalc dobCheck) e3;
          expStr = substring line2 21 27;
          expCheck = char_at line2 27;
          expCalc = calculateCheckDigit expStr;
          e5 = push_if (check_digit_fails expCheck expCalc)
                 (check_digit_error ''Expiry date'' expCalc expCheck) e4;
          personalNum = substring line2 28 42;
          personalNumCheck = char_at line2 42;
          personalNumCalc = calculateCheckDigit personalNum;
          e6 = push_if (remove_fillers personalNum \<noteq> [] \<and> check_digit_fails personalNumCheck personalNumCalc)
                 (check_digit_error ''Personal number'' personalNumCalc personalNumCheck) e5;
          compositeStr = substring line2 0 10 @ substring line2 13 20 @ substring line2 21 43;
          compositeCheck = char_at line2 43;
          compositeCalc = calculateCheckDigit compositeStr;
          e7 = push_if (check_digit_fails compositeCheck compositeCalc)
                 (check_digit_error ''Composite'' compositeCalc compositeCheck) e6
      in \<lparr>valid = (length e7 = 0),
          errors = e7,
          parsedData = parsedData0
            \<lparr>mrz_documentType := Some (remove_fillers (substring line1 0 2)),
             mrz_issuingCountry := Some (remove_fillers (substring line1 2 5)),
             mrz_surname := Some (name_piece (nth_opt names 0)),
             mrz_givenNames := Some (name_piece (nth_opt names 1)),
             mrz_documentNumber := Some (remove_fillers (substring line2 0 9)),
             mrz_nationality := Some (remove_fillers (substring line2 10 13)),
             mrz_dateOfBirth := Some (parseMRZDate dobStr),
             mrz_sex := map_option (\<lambda>c. [c]) (char_at line2 20),
             mrz_expiryDate := Some (parseMRZDate expStr)\<rparr>\<rparr>)"

definition validateTD1 :: "string list \<Rightarrow> string list \<Rightarrow> parsedData \<Rightarrow> mrz_result" where
  "validateTD1 mrzLines errors0 parsedData0 =
     (let line1 = mrzLines ! 0;
          line2 = mrzLines ! 1;
          line3 = mrzLines ! 2;
          e1 = push_if (length line1 \<noteq> 30) (line_length_error 1 (length line1) 30) errors0;
          e2 = push_if (length line2 \<noteq> 30) (line_length_error 2 (length line2) 30) e1;
          e3 = push_if (length line3 \<noteq> 30) (line_length_error 3 (length line3) 30) e2;
          docNumCheck = char_at line1 14;
          docNumCalc = calculateCheckDigit (substring line1 5 14);
          e4 = push_if (check_digit_fails docNumCheck docNumCalc)
                 ''Document number check digit failed'' e3;
          dobStr = substring line2 0 6;
          dobCheck = char_at line2 6;
          dobCalc = calculateCheckDigit dobStr;
          e5 = push_if (check_digit_fails dobCheck dobCalc)
                 ''Date of birth check digit failed'' e4;
          expStr = substring line2 8 14;
          expCheck = char_at line2 14;
          expCalc = calculateCheckDigit expStr;
          e6 = push_if (check_digit_fails expCheck expCalc)
                 ''Expiry date check digit failed'' e5;
          names = split_fillers [] (substring line3 0 30)
      in \<lparr>valid = (length e6 = 0),
          errors = e6,
          parsedData = parsedData0
            \<lparr>mrz_documentType := Some (remove_fillers (substring line1 0 2)),
             mrz_issuingCountry := Some (remove_fillers (substring line1 2 5)),
             mrz_documentNumber := Some (remove_fillers (substring line1 5 14)),
             mrz_dateOfBirth := Some (parseMRZDate dobStr),
             mrz_sex := map_option (\<lambda>c. [c]) (char_at line2 7),
             mrz_expiryDate := Some (parseMRZDate expStr),
             mrz_nationality := Some (remove_fillers (substring line2 15 18)),
             mrz_surname := Some (name_piece (nth_opt names 0)),
             mrz_givenNames := Some (name_piece (nth_opt names 1))\<rparr>\<rparr>)"

definition validateMRZ :: "string list \<Rightarrow> mrz_result" where
  "validateMRZ mrzLines =
     (let errors0 = []; parsedData0 = empty_parsedData
      in if length mrzLines = 2 then validateTD3 mrzLines errors0 parsedData0
         else if length mrzLines = 3 then validateTD1 mrzLines errors0 parsedData0
         else \<lparr>valid = False,
               errors = errors0 @ [''Invalid MRZ format - expected 2 or 3 lines''],
               parsedData = parsedData0\<rparr>)"

section \<open>The checksum as the specification words it\<close>

text \<open>The characters of a machine-readable zone, in the order of their values:
  the digits are worth 0 to 9 and the letters 10 to 35; the filler is worth 0.\<close>

definition mrz_characters :: string where
  "mrz_characters = ''0123456789ABCDEFGHIJKLMNOPQRSTUVWXYZ<''"

fun position_in :: "char \<Rightarrow> string \<Rightarrow> nat" where
  "position_in c [] = 0"
| "position_in c (d # ds) = (if c = d then 0 else Suc (position_in c ds))"

definition spec_char_value :: "char \<Rightarrow> nat" where
  "spec_char_value c = (if c = CHR ''<'' then 0 else position_in c mrz_characters)"

definition spec_check_digit :: "string \<Rightarrow> nat" where
  "spec_check_digit s = (\<Sum>i<length s. spec_char_value (s ! i) * [7, 3, 1] ! (i mod 3)) mod 10"

section \<open>Extracted fields, applicant data and policy\<close>

record ExtractedField =
  field_value :: string
  confidence :: nat

record ExtractedData =
  documentType :: ExtractedField
  documentNumber :: ExtractedField
  surname :: ExtractedField
  givenNames :: ExtractedField
  nationality :: ExtractedField
  dateOfBirth :: ExtractedField
  sex :: ExtractedField
  placeOfBirth :: "ExtractedField option"
  issuingCountry :: ExtractedField
  issueDate :: ExtractedField
  expiryDate :: ExtractedField
  mrzLine1 :: "ExtractedField option"
  mrzLine2 :: "ExtractedField option"
  mrzLine3 :: "ExtractedField option"

record ApplicantData =
  applicant_name :: string
  applicant_dateOfBirth :: string
  applicant_passportNumber :: string
  applicant_nationality :: string
  intendedVisaType :: string

text \<open>\<open>ValidationCheck\<close> and \<open>EligibilityCheck\<close> have the same three fields.\<close>

record Check =
  check_name :: string
  passed :: bool
  message :: string

text \<open>An entry of \<open>visaTypeRequirements\<close>; each of its properties is optional.\<close>

record VisaTypeRequirement =
  req_minAge :: "int option"
  req_allowedNationalities :: "string list option"
  req_additionalRequirements :: "string list option"

record EligibilityPolicy =
  minAge :: int
  maxAge :: int
  allowedNationalities :: "string list"
  blockedNationalities :: "string list"
  requiredDocumentTypes :: "string list"
  minValidityMonths :: int
  visaTypeRequirements :: "string \<rightharpoonup> VisaTypeRequirement"

definition defaultEligibilityPolicy :: EligibilityPolicy where
  "defaultEligibilityPolicy =
     \<lparr>minAge = 18,
      maxAge = 120,
      allowedNationalities = [],
      blockedNationalities = [''PRK''],
      requiredDocumentTypes = [''P'', ''I''],
      minValidityMonths = 6,
      visaTypeRequirements = map_of
        [(''tourist'',
            \<lparr>req_minAge = Some 18, req_allowedNationalities = Some [],
             req_additionalRequirements = Some [''Valid passport'', ''Proof of accommodation'']\<rparr>),
         (''business'',
            \<lparr>req_minAge = Some 21, req_allowedNationalities = Some [],
             req_additionalRequirements = Some [''Valid passport'', ''Business invitation letter'']\<rparr>),
         (''student'',
            \<lparr>req_minAge = Some 16, req_allowedNationalities = Some [],
             req_additionalRequirements =
               Some [''Valid passport'', ''Letter of acceptance from institution'']\<rparr>),
         (''work'',
            \<lparr>req_minAge = Some 18, req_allowedNationalities = Some [],
             req_additionalRequirements =
               Some [''Valid passport'', ''Job offer letter'', ''Work permit'']\<rparr>)]\<rparr>"

section \<open>Dates\<close>

text \<open>
  A \<open>Date\<close> object is the values the checks read from it: its time value in
  milliseconds (what \<open><\<close> compares) and what \<open>getFullYear\<close>, \<open>getMonth\<close> (0 to 11)
  and \<open>getDate\<close> return. The clock and the parser of the host are parameters of the
  checks: \<open>today\<close> is the value of \<open>new Date()\<close> and \<open>Date s\<close> the value of
  \<open>new Date(s)\<close>. The constructor never throws: for a text it cannot read it returns an
  Invalid Date, whose time value and getters are \<open>NaN\<close>; that is \<open>None\<close> here.
\<close>

record js_date =
  getTime :: int
  getFullYear :: int
  getMonth :: int
  getDate :: int

type_synonym date_constructor = "string \<Rightarrow> js_date option"

text \<open>One host for the examples: it reads the form \<open>YYYY-MM-DD\<close> as midnight UTC and
  runs in the UTC time zone; the days are counted from 1970-01-01 in the proleptic
  Gregorian calendar. Every other text is an Invalid Date for it.\<close>

definition days_from_civil :: "int \<Rightarrow> int \<Rightarrow> int \<Rightarrow> int" where
  "days_from_civil y m d =
     (let y' = (if m \<le> 2 then y - 1 else y);
          era = y' div 400;
          yoe = y' - era * 400;
          mp = (m + 9) mod 12;
          doy = (153 * mp + 2) div 5 + d - 1;
          doe = yoe * 365 + yoe div 4 - yoe div 100 + doy
      in era * 146097 + doe - 719468)"

definition days_in_month :: "int \<Rightarrow> int \<Rightarrow> int" where
  "days_in_month y m =
     (if m = 2 then (if y mod 4 = 0 \<and> (y mod 100 \<noteq> 0 \<or> y mod 400 = 0) then 29 else 28)
      else if m = 4 \<or> m = 6 \<or> m = 9 \<or> m = 11 then 30 else 31)"

definition iso_date_host :: date_constructor where
  "iso_date_host s =
     (if length s = 10 \<and> list_all is_digit (substring s 0 4) \<and> char_at s 4 = Some CHR ''-''
         \<and> list_all is_digit (substring s 5 7) \<and> char_at s 7 = Some CHR ''-''
         \<and> list_all is_digit (substring s 8 10)
      then
        (let y = digits_value 10 (substring s 0 4);
             m = digits_value 10 (substring s 5 7);
             d = digits_value 10 (substring s 8 10)
         in if 1 \<le> m \<and> m \<le> 12 \<and> 1 \<le> d \<and> d \<le> days_in_month y m
            then Some \<lparr>getTime = days_from_civil y m d * 86400000,
                       getFullYear = y, getMonth = m - 1, getDate = d\<rparr>
            else None)
      else None)"

section \<open>The document validator\<close>

text \<open>What a \<open>try\<close> block can raise. No statement of the blocks modelled here raises,
  so each block returns its value on the right; the \<open>catch\<close> branch of the source is
  the \<open>Inl\<close> case of the function around it. A comparison with \<open>NaN\<close> is false:
  an Invalid Date is neither before nor after today, and an age that is \<open>NaN\<close> is
  within no range.\<close>

datatype js_error = Thrown

definition try_checkDocumentExpiry :: "date_constructor \<Rightarrow> js_date \<Rightarrow> ExtractedData \<Rightarrow> js_error + Check" where
  "try_checkDocumentExpiry Date today data =
     (let expiry = Date (field_value (expiryDate data));
          isExpired = (case expiry of None \<Rightarrow> False | Some e \<Rightarrow> getTime e < getTime today)
      in Inr \<lparr>check_name = ''Document Expiry'',
               passed = (\<not> isExpired),
               message = (if isExpired
                          then ''Document expired on '' @ field_value (expiryDate data)
                          else ''Document valid until '' @ field_value (expiryDate data))\<rparr>)"

definition checkDocumentExpiry :: "date_constructor \<Rightarrow> js_date \<Rightarrow> ExtractedData \<Rightarrow> Check" where
  "checkDocumentExpiry Date today data =
     (case try_checkDocumentExpiry Date today data of
        Inr c \<Rightarrow> c
      | Inl error \<Rightarrow>
          \<lparr>check_name = ''Document Expiry'', passed = False,
           message = ''Invalid expiry date format''\<rparr>)"

definition checkNameMatch :: "ExtractedData \<Rightarrow> ApplicantData \<Rightarrow> Check" where
  "checkNameMatch data applicant =
     (let extractedFullName =
            trim (toLowerCase (field_value (givenNames data) @ '' '' @ field_value (surname data)));
          applicantName = trim (toLowerCase (applicant_name applicant));
          match = (extractedFullName = applicantName)
      in \<lparr>check_name = ''Name Match'',
          passed = match,
          message = (if match then ''Applicant name matches document''
                     else ''Name mismatch: Document shows '' @ [CHR 0x22] @ extractedFullName
                          @ [CHR 0x22] @ '', applicant claims '' @ [CHR 0x22] @ applicantName
                          @ [CHR 0x22])\<rparr>)"

text \<open>\<open>a || b\<close> on a number that may be absent: \<open>undefined\<close> and \<open>0\<close> are falsy.\<close>

definition number_or :: "int option \<Rightarrow> int \<Rightarrow> int" where
  "number_or a b = (case a of None \<Rightarrow> b | Some n \<Rightarrow> if n = 0 then b else n)"

text \<open>The age on \<open>today\<close> of a holder born on \<open>dob\<close>; \<open>NaN\<close> for an Invalid Date.\<close>

definition age_on :: "js_date \<Rightarrow> js_date option \<Rightarrow> int option" where
  "age_on today dob =
     (case dob of
        None \<Rightarrow> None
      | Some b \<Rightarrow>
          (let age = getFullYear today - getFullYear b;
               monthDiff = getMonth today - getMonth b
           in if monthDiff < 0 \<or> (monthDiff = 0 \<and> getDate today < getDate b)
              then Some (age - 1) else Some age))"

definition try_checkAgeRequirements ::
  "date_constructor \<Rightarrow> js_date \<Rightarrow> ExtractedData \<Rightarrow> ApplicantData \<Rightarrow> EligibilityPolicy \<Rightarrow> js_error + Check" where
  "try_checkAgeRequirements Date today data applicant policy =
     (let dob = Date (field_value (dateOfBirth data));
          age = age_on today dob;
          visaTypeReq = visaTypeRequirements policy (intendedVisaType applicant);
          minAge' = number_or (case visaTypeReq of None \<Rightarrow> None | Some r \<Rightarrow> req_minAge r)
                      (minAge policy);
          maxAge' = maxAge policy;
          meetsAge = (case age of None \<Rightarrow> False | Some a \<Rightarrow> a \<ge> minAge' \<and> a \<le> maxAge')
      in Inr \<lparr>check_name = ''Age Requirements'',
               passed = meetsAge,
               message = (if meetsAge
                          then ''Age '' @ show_number age @ '' meets requirements (''
                               @ show_int minAge' @ ''-'' @ show_int maxAge' @ '')''
                          else ''Age '' @ show_number age @ '' does not meet requirements (''
                               @ show_int minAge' @ ''-'' @ show_int maxAge' @ '')'')\<rparr>)"

definition checkAgeRequirements ::
  "date_constructor \<Rightarrow> js_date \<Rightarrow> ExtractedData \<Rightarrow> ApplicantData \<Rightarrow> EligibilityPolicy \<Rightarrow> Check" where
  "checkAgeRequirements Date today data applicant policy =
     (case try_checkAgeRequirements Date today data applicant policy of
        Inr c \<Rightarrow> c
      | Inl error \<Rightarrow>
          \<lparr>check_name = ''Age Requirements'', passed = False,
           message = ''Unable to verify age requirements''\<rparr>)"

definition checkNationalityEligibility :: "ExtractedData \<Rightarrow> EligibilityPolicy \<Rightarrow> Check" where
  "checkNationalityEligibility data policy =
     (let nat' = field_value (nationality data)
      in if nat' \<in> set (blockedNationalities policy) then
           \<lparr>check_name = ''Nationality Eligibility'', passed = False,
            message = ''Nationality '' @ nat' @ '' is not eligible for visa''\<rparr>
         else if length (allowedNationalities policy) > 0
                 \<and> nat' \<notin> set (allowedNationalities policy) then
           \<lparr>check_name = ''Nationality Eligibility'', passed = False,
            message = ''Nationality '' @ nat' @ '' is not in allowed list''\<rparr>
         else
           \<lparr>check_name = ''Nationality Eligibility'', passed = True,
            message = ''Nationality '' @ nat' @ '' is eligible''\<rparr>)"

definition checkVisaTypeRequirements ::
  "ExtractedData \<Rightarrow> ApplicantData \<Rightarrow> EligibilityPolicy \<Rightarrow> Check" where
  "checkVisaTypeRequirements data applicant policy =
     (case visaTypeRequirements policy (intendedVisaType applicant) of
        None \<Rightarrow>
          \<lparr>check_name = ''Visa Type Requirements'', passed = True,
           message = ''No specific requirements for visa type: '' @ intendedVisaType applicant\<rparr>
      | Some visaTypeReq \<Rightarrow>
          (let nat' = field_value (nationality data)
           in if (case req_allowedNationalities visaTypeReq of
                    None \<Rightarrow> False
                  | Some allowed \<Rightarrow> nat' \<notin> set allowed) then
                \<lparr>check_name = ''Visa Type Requirements'', passed = False,
                 message = ''Nationality '' @ nat' @ '' not eligible for ''
                           @ intendedVisaType applicant @ '' visa''\<rparr>
              else
                \<lparr>check_name = ''Visa Type Requirements'', passed = True,
                 message = ''Meets all requirements for '' @ intendedVisaType applicant
                           @ '' visa''\<rparr>))"

section \<open>The OCR processor\<close>

text \<open>The test \<open>/^[A-Z0-9<]+$/\<close> on a line without line breaks.\<close>

definition is_mrz_line :: "string \<Rightarrow> bool" where
  "is_mrz_line s = (s \<noteq> [] \<and> list_all (\<lambda>c. is_upper c \<or> is_digit c \<or> c = CHR ''<'') s)"

fun extractMRZ_loop :: "string list \<Rightarrow> string list \<Rightarrow> string list" where
  "extractMRZ_loop mrzLines [] = mrzLines"
| "extractMRZ_loop mrzLines (line # lines) =
     (let cleanLine = toUpperCase (filter (\<lambda>c. \<not> is_space c) line)
      in if length cleanLine = 44 \<and> is_mrz_line cleanLine
           then extractMRZ_loop (mrzLines @ [cleanLine]) lines
         else if length cleanLine = 30 \<and> is_mrz_line cleanLine
           then extractMRZ_loop (mrzLines @ [cleanLine]) lines
         else extractMRZ_loop mrzLines lines)"

definition extractMRZ :: "string \<Rightarrow> string list" where
  "extractMRZ text = extractMRZ_loop [] (map trim (split_char (CHR 0x0A) [] text))"

definition extractDocumentType :: "string \<Rightarrow> string" where
  "extractDocumentType text =
     (let upper = toUpperCase text
      in if str_includes upper ''PASSPORT'' then ''P''
         else if str_includes upper ''VISA'' then ''V''
         else if str_includes upper ''IDENTITY'' \<or> str_includes upper ''ID CARD'' then ''I''
         else if str_includes upper ''DRIVING'' \<or> str_includes upper ''LICENSE''
                 \<or> str_includes upper ''LICENCE'' then ''D''
         else ''P'')"

text \<open>The loop shared by \<open>extractSurname\<close> and \<open>extractGivenNames\<close>: the first line
  that holds one of the labels and a colon gives the text after its first colon.\<close>

fun extractLabelled :: "string list \<Rightarrow> string list \<Rightarrow> string" where
  "extractLabelled labels [] = []"
| "extractLabelled labels (line # lines) =
     (let lower = toLowerCase line;
          parts = split_char (CHR '':'') [] line
      in if list_ex (str_includes lower) labels \<and> length parts > 1
         then toUpperCase (trim (parts ! 1))
         else extractLabelled labels lines)"

definition extractSurname :: "string \<Rightarrow> string" where
  "extractSurname text =
     extractLabelled [''surname'', ''last name'', ''family name''] (split_char (CHR 0x0A) [] text)"

definition extractGivenNames :: "string \<Rightarrow> string" where
  "extractGivenNames text =
     extractLabelled [''given name'', ''first name''] (split_char (CHR 0x0A) [] text)"

text \<open>The extractors that run a regular expression or read the clock are parameters:
  \<open>extractPattern\<close> with its two patterns, \<open>extractDate\<close> with its keywords, and
  \<open>extractSex\<close>. Every result below holds for all of them.\<close>

datatype pattern = DocumentNumberPattern | CountryCodePattern

record matchers =
  extractPattern :: "string \<Rightarrow> pattern \<Rightarrow> string"
  extractDate :: "string \<Rightarrow> string list \<Rightarrow> string"
  extractSex :: "string \<Rightarrow> string"

text \<open>\<open>parsedMRZ?.field || fallback\<close>: the fallback is taken when there is no record,
  when the record lacks the field, and when the field is the empty string.\<close>

definition field_or :: "parsedData option \<Rightarrow> (parsedData \<Rightarrow> string option) \<Rightarrow> string \<Rightarrow> string" where
  "field_or parsedMRZ field fallback =
     (case parsedMRZ of
        None \<Rightarrow> fallback
      | Some p \<Rightarrow> (case field p of None \<Rightarrow> fallback | Some v \<Rightarrow> if v = [] then fallback else v))"

text \<open>No layout assigns \<open>parsedData.issueDate\<close>, so \<open>parsedMRZ?.issueDate\<close> is always
  \<open>undefined\<close> and the issue date always comes from \<open>extractDate\<close>.\<close>

definition extractFields :: "matchers \<Rightarrow> string \<Rightarrow> parsedData option \<Rightarrow> nat \<Rightarrow> ExtractedData" where
  "extractFields m text parsedMRZ mrzConfidence =
     (let documentType' = field_or parsedMRZ mrz_documentType (extractDocumentType text);
          documentNumber' = field_or parsedMRZ mrz_documentNumber
                              (extractPattern m text DocumentNumberPattern);
          surname' = field_or parsedMRZ mrz_surname (extractSurname text);
          givenNames' = field_or parsedMRZ mrz_givenNames (extractGivenNames text);
          nationality' = field_or parsedMRZ mrz_nationality
                           (extractPattern m text CountryCodePattern);
          dateOfBirth' = field_or parsedMRZ mrz_dateOfBirth
                           (extractDate m text [''birth'', ''born'', ''dob'']);
          sex' = field_or parsedMRZ mrz_sex (extractSex m text);
          issuingCountry' = field_or parsedMRZ mrz_issuingCountry
                              (extractPattern m text CountryCodePattern);
          issueDate' = extractDate m text [''issue'', ''issued'', ''date of issue''];
          expiryDate' = field_or parsedMRZ mrz_expiryDate
                          (extractDate m text [''expiry'', ''expires'', ''valid until'', ''exp''])
      in \<lparr>documentType =
            \<lparr>field_value = documentType',
             confidence = (if parsedMRZ \<noteq> None then mrzConfidence else 80)\<rparr>,
          documentNumber =
            \<lparr>field_value = documentNumber',
             confidence = (if parsedMRZ \<noteq> None then mrzConfidence else 75)\<rparr>,
          surname =
            \<lparr>field_value = surname',
             confidence = (if parsedMRZ \<noteq> None then mrzConfidence else 75)\<rparr>,
          givenNames =
            \<lparr>field_value = givenNames',
             confidence = (if parsedMRZ \<noteq> None then mrzConfidence else 75)\<rparr>,
          nationality =
            \<lparr>field_value = nationality',
             confidence = (if parsedMRZ \<noteq> None then mrzConfidence else 80)\<rparr>,
          dateOfBirth =
            \<lparr>field_value = dateOfBirth',
             confidence = (if parsedMRZ \<noteq> None then mrzConfidence else 70)\<rparr>,
          sex =
            \<lparr>field_value = sex',
             confidence = (if parsedMRZ \<noteq> None then mrzConfidence else 85)\<rparr>,
          placeOfBirth = None,
          issuingCountry =
            \<lparr>field_value = issuingCountry',
             confidence = (if parsedMRZ \<noteq> None then mrzConfidence else 80)\<rparr>,
          issueDate = \<lparr>field_value = issueDate', confidence = 70\<rparr>,
          expiryDate =
            \<lparr>field_value = expiryDate',
             confidence = (if parsedMRZ \<noteq> None then mrzConfidence else 70)\<rparr>,
          mrzLine1 = None, mrzLine2 = None, mrzLine3 = None\<rparr>)"

text \<open>\<open>mrzLines[i] || ''\<close>.\<close>

definition line_or_empty :: "string list \<Rightarrow> nat \<Rightarrow> string" where
  "line_or_empty mrzLines i = (case nth_opt mrzLines i of None \<Rightarrow> [] | Some l \<Rightarrow> l)"

text \<open>\<open>processDocument\<close> from the recognised text on; the recognition itself is the
  parameter \<open>recognize\<close>, from the image data to the text.\<close>

definition processText :: "matchers \<Rightarrow> string \<Rightarrow> ExtractedData" where
  "processText m text =
     (let mrzLines = extractMRZ text;
          mrzResult = validateMRZ mrzLines;
          parsedMRZ = (if length mrzLines > 0 then Some (parsedData mrzResult) else None);
          mrzConfidence = (if length mrzLines > 0 then (if valid mrzResult then 95 else 60) else 0);
          extractedData = extractFields m text parsedMRZ mrzConfidence
      in if length mrzLines > 0 then
           extractedData
             \<lparr>mrzLine1 := Some \<lparr>field_value = line_or_empty mrzLines 0, confidence = mrzConfidence\<rparr>,
              mrzLine2 := Some \<lparr>field_value = line_or_empty mrzLines 1, confidence = mrzConfidence\<rparr>,
              mrzLine3 := (if length mrzLines > 2
                           then Some \<lparr>field_value = line_or_empty mrzLines 2,
                                      confidence = mrzConfidence\<rparr>
                           else None)\<rparr>
         else extractedData)"

definition processDocument :: "(string \<Rightarrow> string) \<Rightarrow> matchers \<Rightarrow> string \<Rightarrow> ExtractedData" where
  "processDocument recognize m imageData =
     (let base64Data = (case nth_opt (split_char (CHR '','') [] imageData) 1 of
                          None \<Rightarrow> imageData
                        | Some d \<Rightarrow> if d = [] then imageData else d)
      in processText m (recognize base64Data))"

section \<open>Sample inputs\<close>

text \<open>A two-line zone and a three-line zone in which every line has a wrong length and
  every check digit is one more than the digit the characters give.\<close>

definition damaged_td3 :: "string list" where
  "damaged_td3 =
     [''P<UTOERIKSSON<<ANNA'',
      ''L898902C<4UTO6908062F9406237ZE184226B<<<<<27<'']"

definition damaged_td1 :: "string list" where
  "damaged_td1 =
     [''I<UTOD231458908<<<<<<<<<<<<<<<<'',
      ''7408123F1204150UTO<<<<<<<<<<<6<'',
      ''ERIKSSON<<ANNA<MARIA'']"

text \<open>A clock: 2 November 2026, at noon UTC.\<close>

definition sample_today :: js_date where
  "sample_today =
     \<lparr>getTime = days_from_civil 2026 11 2 * 86400000 + 43200000,
      getFullYear = 2026, getMonth = 10, getDate = 2\<rparr>"

text \<open>The fields of a passport read from a valid zone; the examples change the field
  they are about.\<close>

definition sample_document :: ExtractedData where
  "sample_document =
     \<lparr>documentType = \<lparr>field_value = ''P'', confidence = 95\<rparr>,
      documentNumber = \<lparr>field_value = ''L898902C'', confidence = 95\<rparr>,
      surname = \<lparr>field_value = ''SMITH'', confidence = 95\<rparr>,
      givenNames = \<lparr>field_value = ''JOHN'', confidence = 95\<rparr>,
      nationality = \<lparr>field_value = ''UTO'', confidence = 95\<rparr>,
      dateOfBirth = \<lparr>field_value = ''2016-05-15'', confidence = 95\<rparr>,
      sex = \<lparr>field_value = ''M'', confidence = 95\<rparr>,
      placeOfBirth = None,
      issuingCountry = \<lparr>field_value = ''UTO'', confidence = 95\<rparr>,
      issueDate = \<lparr>field_value = ''2021-06-23'', confidence = 70\<rparr>,
      expiryDate = \<lparr>field_value = ''2031-06-23'', confidence = 95\<rparr>,
      mrzLine1 = None, mrzLine2 = None, mrzLine3 = None\<rparr>"

definition sample_applicant :: ApplicantData where
  "sample_applicant =
     \<lparr>applicant_name = ''John Smith'',
      applicant_dateOfBirth = ''2016-05-15'',
      applicant_passportNumber = ''L898902C'',
      applicant_nationality = ''UTO'',
      intendedVisaType = ''tourist''\<rparr>"

text \<open>The default policy with a tourist entry whose minimum age is 0.\<close>

definition child_friendly_policy :: EligibilityPolicy where
  "child_friendly_policy =
     defaultEligibilityPolicy
       \<lparr>visaTypeRequirements := map_of
          [(''tourist'',
              \<lparr>req_minAge = Some 0, req_allowedNationalities = None,
               req_additionalRequirements = None\<rparr>)]\<rparr>"

text \<open>What the three parametric extractors return on a text in which none of their
  patterns matches: \<open>extractPattern\<close> the empty string, \<open>extractDate\<close> the date of the
  day, \<open>extractSex\<close> the default \<open>M\<close>. The texts \<open>one_line_text\<close> and
  \<open>plain_text\<close> below are such texts: they hold no digit, no word of exactly three
  capital letters, no keyword of a date, no single letter M or F and neither MALE nor
  FEMALE.\<close>

definition unmatched :: "string \<Rightarrow> matchers" where
  "unmatched today_iso =
     \<lparr>extractPattern = (\<lambda>text p. []),
      extractDate = (\<lambda>text keywords. today_iso),
      extractSex = (\<lambda>text. ''M'')\<rparr>"

text \<open>A recognised text with the word PASSPORT and a single line of 44 characters of
  the zone, the second line having been lost.\<close>

definition one_line_text :: string where
  "one_line_text = ''PASSPORT'' @ [CHR 0x0A] @ ''P<UTOERIKSSON<<ANNA<MARIA<<<<<<<<<<<<<<<<<<<''"

text \<open>A recognised text without any line of a zone, and one with a valid two-line zone.\<close>

definition plain_text :: string where
  "plain_text = ''PASSPORT'' @ [CHR 0x0A] @ ''Surname: Eriksson''"

definition valid_zone_text :: string where
  "valid_zone_text =
     ''P<UTOERIKSSON<<ANNA<MARIA<<<<<<<<<<<<<<<<<<<'' @ [CHR 0x0A]
     @ ''L898902C<3UTO6908061F9406236ZE184226B<<<<<14''"

section \<open>Properties of the MRZ validator\<close>

lemma set_push_if: "set (push_if b e es) = (if b then insert e (set es) else set es)"
  by (simp add: push_if_def)

lemma parseInt_digit: "is_digit c \<Longrightarrow> parseInt [c] = Some (int (of_char c - 48))"
  apply (simp add: parseInt_def parse_digits_def substring_def digits_value_def)
  apply (auto simp: is_digit_def is_space_def hex_value_def)
  done

lemma charValue_digit: "is_digit c \<Longrightarrow> charValue c = of_char c - 48"
  by (simp add: charValue_def parseInt_digit)

lemma charValue_spec: "c \<in> set mrz_characters \<Longrightarrow> charValue c = spec_char_value c"
  unfolding mrz_characters_def
  apply (simp only: set_simps insert_iff empty_iff)
  apply (elim disjE)
  apply (simp_all add: charValue_digit is_digit_def)
  apply (simp_all add: charValue_def spec_char_value_def mrz_characters_def is_digit_def is_upper_def)
  done

text \<open>The loop adds, to the total it starts from, the weighted values of the characters
  it still has to read.\<close>

lemma check_loop_sum:
  "check_loop i acc cs = acc + (\<Sum>j<length cs. charValue (cs ! j) * WEIGHTS ! ((i + j) mod 3))"
proof (induction cs arbitrary: i acc)
  case Nil
  then show ?case by simp
next
  case (Cons c cs)
  show ?case by (simp add: Cons.IH sum.lessThan_Suc_shift del: sum.lessThan_Suc)
qed

lemma calculateCheckDigit_spec:
  assumes "\<forall>c\<in>set s. c \<in> set mrz_characters"
  shows "calculateCheckDigit s = spec_check_digit s"
proof -
  have "(\<Sum>j<length s. charValue (s ! j) * WEIGHTS ! (j mod 3))
      = (\<Sum>j<length s. spec_char_value (s ! j) * [7, 3, 1] ! (j mod 3))"
    using assms by (intro sum.cong) (auto simp: charValue_spec WEIGHTS_def)
  then show ?thesis
    by (simp add: calculateCheckDigit_def spec_check_digit_def check_loop_sum)
qed

lemma is_digit_digit_char: "d < 10 \<Longrightarrow> is_digit (digit_char d)"
  by (simp add: is_digit_def digit_char_def)

lemma parseInt_digit_char: "d < 10 \<Longrightarrow> parseInt [digit_char d] = Some (int d)"
  by (simp add: parseInt_digit is_digit_digit_char) (simp add: digit_char_def)

lemma calculateCheckDigit_less: "calculateCheckDigit s < 10"
  by (simp add: calculateCheckDigit_def)

lemma check_digit_embedded:
  "\<not> check_digit_fails (Some (digit_char (calculateCheckDigit s))) (calculateCheckDigit s)"
  by (simp add: check_digit_fails_def parseInt_char_def parseInt_digit_char calculateCheckDigit_less)

lemma substring_prefix: "length s = n \<Longrightarrow> substring (s @ t) 0 n = s"
  by (simp add: substring_def)

lemma char_at_after: "length s = n \<Longrightarrow> char_at (s @ c # t) n = Some c"
  by (simp add: char_at_def nth_append)

lemma docnum_prefix_line:
  "\<not> prefix ''Document number check digit failed'' (line_length_error k n e)"
  by (simp add: line_length_error_def)

lemma docnum_prefix_other:
  "\<not> prefix ''Document number check digit failed'' (check_digit_error ''Date of birth'' a b)"
  "\<not> prefix ''Document number check digit failed'' (check_digit_error ''Expiry date'' a b)"
  "\<not> prefix ''Document number check digit failed'' (check_digit_error ''Personal number'' a b)"
  "\<not> prefix ''Document number check digit failed'' (check_digit_error ''Composite'' a b)"
  by (simp_all add: check_digit_error_def)

lemma substring_middle:
  "length p = a \<Longrightarrow> length s = n \<Longrightarrow> substring (p @ s @ t) a (a + n) = s"
  by (simp add: substring_def)

lemma char_at_middle:
  "length p = a \<Longrightarrow> length s = n \<Longrightarrow> char_at (p @ s @ c # t) (a + n) = Some c"
  by (simp add: char_at_def nth_append)

lemma line_length_error_neq:
  "line_length_error k n e \<noteq> ''Document number check digit failed''"
  "''Document number check digit failed'' \<noteq> line_length_error k n e"
  by (simp_all add: line_length_error_def)

lemma td1_round_trip:
  assumes "length s = 9" and "length p = 5"
  shows "''Document number check digit failed'' \<notin>
           set (errors (validateMRZ [p @ s @ digit_char (calculateCheckDigit s) # rest, k2, k3]))"
proof -
  let ?line1 = "p @ s @ digit_char (calculateCheckDigit s) # rest"
  have sub: "substring ?line1 5 14 = s"
    using substring_middle [of p 5 s 9] assms by simp
  have chk: "char_at ?line1 14 = Some (digit_char (calculateCheckDigit s))"
    using char_at_middle [of p 5 s 9] assms by simp
  show ?thesis
    unfolding validateMRZ_def validateTD1_def Let_def
    by (simp add: set_push_if sub chk check_digit_embedded line_length_error_neq)
qed

text \<open>
  Claim C1 (checksum round trip). Let \<open>s\<close> be nine characters over \<open>[A-Z0-9<]\<close>. The
  check digit the code computes for \<open>s\<close> is the one the specification describes: each
  character is worth its value (a digit itself, a letter 10 to 35, the filler 0), the
  values are multiplied by the weights 7, 3, 1 repeated along the positions, summed and
  reduced modulo 10. When that digit is written right after \<open>s\<close> at the start of line 2
  of a two-line zone, whatever the rest of the two lines is, the parser's own test of the
  document number does not fail and its error list holds no document-number check-digit
  error. The same holds in a three-line zone, where \<open>s\<close> follows the five characters of
  the document type and the issuing country on line 1.
\<close>

theorem checksum_round_trip:
  assumes "length s = 9" and "\<forall>c\<in>set s. c \<in> set mrz_characters"
  shows "calculateCheckDigit s = spec_check_digit s \<and>
         \<not> check_digit_fails
              (char_at (s @ digit_char (calculateCheckDigit s) # rest) 9)
              (calculateCheckDigit (substring (s @ digit_char (calculateCheckDigit s) # rest) 0 9)) \<and>
         (\<forall>e\<in>set (errors (validateMRZ [line1, s @ digit_char (calculateCheckDigit s) # rest])).
            \<not> prefix ''Document number check digit failed'' e) \<and>
         (length p = 5 \<longrightarrow>
            ''Document number check digit failed'' \<notin>
              set (errors (validateMRZ [p @ s @ digit_char (calculateCheckDigit s) # rest, k2, k3])))"
proof (intro conjI)
  let ?line2 = "s @ digit_char (calculateCheckDigit s) # rest"
  have sub: "substring ?line2 0 9 = s"
    using assms(1) by (rule substring_prefix)
  have chk: "char_at ?line2 9 = Some (digit_char (calculateCheckDigit s))"
    using assms(1) by (rule char_at_after)
  show "calculateCheckDigit s = spec_check_digit s"
    using assms(2) by (rule calculateCheckDigit_spec)
  show "\<not> check_digit_fails (char_at ?line2 9) (calculateCheckDigit (substring ?line2 0 9))"
    by (simp add: sub chk check_digit_embedded)
  show "\<forall>e\<in>set (errors (validateMRZ [line1, ?line2])).
            \<not> prefix ''Document number check digit failed'' e"
    unfolding validateMRZ_def validateTD3_def Let_def
    by (simp add: set_push_if sub chk check_digit_embedded docnum_prefix_line docnum_prefix_other)
  show "length p = 5 \<longrightarrow>
            ''Document number check digit failed'' \<notin>
              set (errors (validateMRZ [p @ s @ digit_char (calculateCheckDigit s) # rest, k2, k3]))"
    using assms(1) by (simp add: td1_round_trip)
qed

text \<open>The round trip on the document number \<open>L898902C<\<close>, whose check digit is 3, in
  front of the rest of a line 2 and, after \<open>I<UTO\<close>, on line 1 of three lines.\<close>

theorem checksum_round_trip_witness:
  "length ''L898902C<'' = 9 \<and>
   list_all (\<lambda>c. c \<in> set mrz_characters) ''L898902C<'' \<and>
   length ''I<UTO'' = 5 \<and>
   calculateCheckDigit ''L898902C<'' = 3 \<and>
   spec_check_digit ''L898902C<'' = 3 \<and>
   list_all (\<lambda>e. \<not> prefix ''Document number check digit failed'' e)
     (errors (validateMRZ [''P<UTOERIKSSON<<ANNA<MARIA<<<<<<<<<<<<<<<<<<<'',
        ''L898902C<'' @ digit_char (calculateCheckDigit ''L898902C<'')
          # ''UTO6908061F9406236ZE184226B<<<<<14''])) \<and>
   ''Document number check digit failed'' \<notin>
     set (errors (validateMRZ
       [''I<UTO'' @ ''L898902C<'' @ digit_char (calculateCheckDigit ''L898902C<'')
          # ''UTO6908061F9406236ZE184226B<<<<<14'',
        ''6908061F9406236UTO<<<<<<<<<<<4'',
        ''ERIKSSON<<ANNA<MARIA<<<<<<<<<<'']))"
proof -
  have len: "length ''L898902C<'' = 9"
    by simp
  have chars: "\<forall>c\<in>set ''L898902C<''. c \<in> set mrz_characters"
    by (simp add: mrz_characters_def)
  have digit: "calculateCheckDigit ''L898902C<'' = 3"
    by code_simp
  show ?thesis
    using checksum_round_trip [OF len chars,
        where rest = "''UTO6908061F9406236ZE184226B<<<<<14''"
          and ?line1.0 = "''P<UTOERIKSSON<<ANNA<MARIA<<<<<<<<<<<<<<<<<<<''"
          and p = "''I<UTO''"
          and ?k2.0 = "''6908061F9406236UTO<<<<<<<<<<<4''"
          and ?k3.0 = "''ERIKSSON<<ANNA<MARIA<<<<<<<<<<''"]
      len chars digit
    by (simp add: list_all_iff)
qed

text \<open>
  Claim C2 (the specification's sample), as the code decides it. The two lines of the
  specification do not parse as valid: its line 1 has 43 characters, not 44, and its
  line 2 ends in the composite check digit 0 where the weighted sum gives 4.
\<close>

theorem icao_sample_counterexample:
  "\<not> valid (validateMRZ [''P<UTOERIKSSON<<ANNA<MARIA<<<<<<<<<<<<<<<<<<'',
                          ''L898902C<3UTO6908061F9406236ZE184226B<<<<<10''])"
  by code_simp

text \<open>
  Claim C2, amended. Parsing the two lines gives a record with \<open>valid = false\<close> and
  exactly two errors, the length of line 1 and the composite check digit; the surname is
  \<open>ERIKSSON\<close>, the given names are \<open>ANNA MARIA\<close>, the document number is \<open>L898902C\<close>
  (positions 0 to 9 of line 2 without the filler), and the check digits of the document
  number, the date of birth and the expiry date raise no error.
\<close>

theorem icao_sample_parse:
  "validateMRZ [''P<UTOERIKSSON<<ANNA<MARIA<<<<<<<<<<<<<<<<<<'',
                ''L898902C<3UTO6908061F9406236ZE184226B<<<<<10''] =
     \<lparr>valid = False,
      errors = [''Line 1 length invalid: 43, expected 44'',
                ''Composite check digit failed: expected 4, got 0''],
      parsedData =
        \<lparr>mrz_documentType = Some ''P'', mrz_issuingCountry = Some ''UTO'',
         mrz_surname = Some ''ERIKSSON'', mrz_givenNames = Some ''ANNA MARIA'',
         mrz_documentNumber = Some ''L898902C'', mrz_nationality = Some ''UTO'',
         mrz_dateOfBirth = Some ''1969-08-06'', mrz_sex = Some ''F'',
         mrz_expiryDate = Some ''1994-06-23''\<rparr>\<rparr>"
  by code_simp

text \<open>
  Claim C3 (layout dispatch). \<open>validateMRZ\<close> looks at the number of lines only: two
  lines are handed to \<open>validateTD3\<close> and three to \<open>validateTD1\<close>, each with an empty
  error list and an empty property bag; every other number of lines gives at once the
  record with \<open>valid = false\<close>, the single error
  \<open>Invalid MRZ format - expected 2 or 3 lines\<close> and no decoded field.
\<close>

theorem validateMRZ_dispatch:
  "(length mrzLines = 2 \<longrightarrow> validateMRZ mrzLines = validateTD3 mrzLines [] empty_parsedData) \<and>
   (length mrzLines = 3 \<longrightarrow> validateMRZ mrzLines = validateTD1 mrzLines [] empty_parsedData) \<and>
   (length mrzLines \<noteq> 2 \<and> length mrzLines \<noteq> 3 \<longrightarrow>
      validateMRZ mrzLines =
        \<lparr>valid = False,
         errors = [''Invalid MRZ format - expected 2 or 3 lines''],
         parsedData =
           \<lparr>mrz_documentType = None, mrz_issuingCountry = None, mrz_surname = None,
            mrz_givenNames = None, mrz_documentNumber = None, mrz_nationality = None,
            mrz_dateOfBirth = None, mrz_sex = None, mrz_expiryDate = None\<rparr>\<rparr>)"
  by (simp add: validateMRZ_def empty_parsedData_def)

text \<open>The dispatch on two, three, zero, one and four lines.\<close>

theorem validateMRZ_dispatch_witness:
  "validateMRZ [''A'', ''B''] = validateTD3 [''A'', ''B''] [] empty_parsedData \<and>
   validateMRZ [''A'', ''B'', ''C''] = validateTD1 [''A'', ''B'', ''C''] [] empty_parsedData \<and>
   errors (validateMRZ []) = [''Invalid MRZ format - expected 2 or 3 lines''] \<and>
   parsedData (validateMRZ [''A'']) = empty_parsedData \<and>
   \<not> valid (validateMRZ [''A'', ''B'', ''C'', ''D''])"
  using validateMRZ_dispatch [of "[''A'', ''B'']"]
    validateMRZ_dispatch [of "[''A'', ''B'', ''C'']"]
    validateMRZ_dispatch [of "[]"]
    validateMRZ_dispatch [of "[''A'']"]
    validateMRZ_dispatch [of "[''A'', ''B'', ''C'', ''D'']"]
  by (simp add: empty_parsedData_def)

lemma in_push_if: "e \<in> set es \<Longrightarrow> e \<in> set (push_if b e' es)"
  by (simp add: push_if_def)

lemma pushed_push_if: "b \<Longrightarrow> e \<in> set (push_if b e es)"
  by (simp add: push_if_def)

text \<open>
  Claim C4 (errors are not fatal). For every two lines and for every three lines the
  parser returns a record: \<open>valid\<close> is true exactly when the error list is empty; a
  line of the wrong length and a check digit that fails the parser's test each put their
  own message into the error list; and, whatever the errors, the record carries the
  fields decoded from the fixed positions of the lines.
\<close>

theorem errors_are_not_fatal:
  "(let r = validateMRZ [l1, l2] in
      (valid r \<longleftrightarrow> errors r = []) \<and>
      (length l1 \<noteq> 44 \<longrightarrow> line_length_error 1 (length l1) 44 \<in> set (errors r)) \<and>
      (length l2 \<noteq> 44 \<longrightarrow> line_length_error 2 (length l2) 44 \<in> set (errors r)) \<and>
      (check_digit_fails (char_at l2 9) (calculateCheckDigit (substring l2 0 9)) \<longrightarrow>
         check_digit_error ''Document number'' (calculateCheckDigit (substring l2 0 9))
           (char_at l2 9) \<in> set (errors r)) \<and>
      (check_digit_fails (char_at l2 19) (calculateCheckDigit (substring l2 13 19)) \<longrightarrow>
         check_digit_error ''Date of birth'' (calculateCheckDigit (substring l2 13 19))
           (char_at l2 19) \<in> set (errors r)) \<and>
      (check_digit_fails (char_at l2 27) (calculateCheckDigit (substring l2 21 27)) \<longrightarrow>
         check_digit_error ''Expiry date'' (calculateCheckDigit (substring l2 21 27))
           (char_at l2 27) \<in> set (errors r)) \<and>
      (remove_fillers (substring l2 28 42) \<noteq> [] \<and>
       check_digit_fails (char_at l2 42) (calculateCheckDigit (substring l2 28 42)) \<longrightarrow>
         check_digit_error ''Personal number'' (calculateCheckDigit (substring l2 28 42))
           (char_at l2 42) \<in> set (errors r)) \<and>
      (check_digit_fails (char_at l2 43)
         (calculateCheckDigit (substring l2 0 10 @ substring l2 13 20 @ substring l2 21 43)) \<longrightarrow>
         check_digit_error ''Composite''
           (calculateCheckDigit (substring l2 0 10 @ substring l2 13 20 @ substring l2 21 43))
           (char_at l2 43) \<in> set (errors r)) \<and>
      parsedData r =
        \<lparr>mrz_documentType = Some (remove_fillers (substring l1 0 2)),
         mrz_issuingCountry = Some (remove_fillers (substring l1 2 5)),
         mrz_surname = Some (name_piece (nth_opt (split_fillers [] (substring l1 5 44)) 0)),
         mrz_givenNames = Some (name_piece (nth_opt (split_fillers [] (substring l1 5 44)) 1)),
         mrz_documentNumber = Some (remove_fillers (substring l2 0 9)),
         mrz_nationality = Some (remove_fillers (substring l2 10 13)),
         mrz_dateOfBirth = Some (parseMRZDate (substring l2 13 19)),
         mrz_sex = map_option (\<lambda>c. [c]) (char_at l2 20),
         mrz_expiryDate = Some (parseMRZDate (substring l2 21 27))\<rparr>) \<and>
   (let r = validateMRZ [k1, k2, k3] in
      (valid r \<longleftrightarrow> errors r = []) \<and>
      (length k1 \<noteq> 30 \<longrightarrow> line_length_error 1 (length k1) 30 \<in> set (errors r)) \<and>
      (length k2 \<noteq> 30 \<longrightarrow> line_length_error 2 (length k2) 30 \<in> set (errors r)) \<and>
      (length k3 \<noteq> 30 \<longrightarrow> line_length_error 3 (length k3) 30 \<in> set (errors r)) \<and>
      (check_digit_fails (char_at k1 14) (calculateCheckDigit (substring k1 5 14)) \<longrightarrow>
         ''Document number check digit failed'' \<in> set (errors r)) \<and>
      (check_digit_fails (char_at k2 6) (calculateCheckDigit (substring k2 0 6)) \<longrightarrow>
         ''Date of birth check digit failed'' \<in> set (errors r)) \<and>
      (check_digit_fails (char_at k2 14) (calculateCheckDigit (substring k2 8 14)) \<longrightarrow>
         ''Expiry date check digit failed'' \<in> set (errors r)) \<and>
      parsedData r =
        \<lparr>mrz_documentType = Some (remove_fillers (substring k1 0 2)),
         mrz_issuingCountry = Some (remove_fillers (substring k1 2 5)),
         mrz_surname = Some (name_piece (nth_opt (split_fillers [] (substring k3 0 30)) 0)),
         mrz_givenNames = Some (name_piece (nth_opt (split_fillers [] (substring k3 0 30)) 1)),
         mrz_documentNumber = Some (remove_fillers (substring k1 5 14)),
         mrz_nationality = Some (remove_fillers (substring k2 15 18)),
         mrz_dateOfBirth = Some (parseMRZDate (substring k2 0 6)),
         mrz_sex = map_option (\<lambda>c. [c]) (char_at k2 7),
         mrz_expiryDate = Some (parseMRZDate (substring k2 8 14))\<rparr>)"
  unfolding validateMRZ_def validateTD3_def validateTD1_def Let_def
  by (simp add: empty_parsedData_def in_push_if pushed_push_if)

text \<open>The two damaged zones: every hypothesis of the theorem holds for them, so every
  message is in the list, the record is not valid, and the fields are decoded.\<close>

theorem errors_are_not_fatal_witness:
  "errors (validateMRZ damaged_td3) =
     [''Line 1 length invalid: 19, expected 44'',
      ''Line 2 length invalid: 45, expected 44'',
      ''Document number check digit failed: expected 3, got 4'',
      ''Date of birth check digit failed: expected 1, got 2'',
      ''Expiry date check digit failed: expected 6, got 7'',
      ''Personal number check digit failed: expected 1, got 2'',
      ''Composite check digit failed: expected 6, got 7''] \<and>
   \<not> valid (validateMRZ damaged_td3) \<and>
   parsedData (validateMRZ damaged_td3) =
     \<lparr>mrz_documentType = Some ''P'', mrz_issuingCountry = Some ''UTO'',
      mrz_surname = Some ''ERIKSSON'', mrz_givenNames = Some ''ANNA'',
      mrz_documentNumber = Some ''L898902C'', mrz_nationality = Some ''UTO'',
      mrz_dateOfBirth = Some ''1969-08-06'', mrz_sex = Some ''F'',
      mrz_expiryDate = Some ''1994-06-23''\<rparr> \<and>
   errors (validateMRZ damaged_td1) =
     [''Line 1 length invalid: 31, expected 30'',
      ''Line 2 length invalid: 31, expected 30'',
      ''Line 3 length invalid: 20, expected 30'',
      ''Document number check digit failed'',
      ''Date of birth check digit failed'',
      ''Expiry date check digit failed''] \<and>
   \<not> valid (validateMRZ damaged_td1) \<and>
   parsedData (validateMRZ damaged_td1) =
     \<lparr>mrz_documentType = Some ''I'', mrz_issuingCountry = Some ''UTO'',
      mrz_surname = Some ''ERIKSSON'', mrz_givenNames = Some ''ANNA MARIA'',
      mrz_documentNumber = Some ''D23145890'', mrz_nationality = Some ''UTO'',
      mrz_dateOfBirth = Some ''1974-08-12'', mrz_sex = Some ''F'',
      mrz_expiryDate = Some ''2012-04-15''\<rparr>"
proof -
  have e3: "errors (validateMRZ damaged_td3) =
     [''Line 1 length invalid: 19, expected 44'',
      ''Line 2 length invalid: 45, expected 44'',
      ''Document number check digit failed: expected 3, got 4'',
      ''Date of birth check digit failed: expected 1, got 2'',
      ''Expiry date check digit failed: expected 6, got 7'',
      ''Personal number check digit failed: expected 1, got 2'',
      ''Composite check digit failed: expected 6, got 7'']"
    by code_simp
  have e1: "errors (validateMRZ damaged_td1) =
     [''Line 1 length invalid: 31, expected 30'',
      ''Line 2 length invalid: 31, expected 30'',
      ''Line 3 length invalid: 20, expected 30'',
      ''Document number check digit failed'',
      ''Date of birth check digit failed'',
      ''Expiry date check digit failed'']"
    by code_simp
  have p3: "parsedData (validateMRZ damaged_td3) =
     \<lparr>mrz_documentType = Some ''P'', mrz_issuingCountry = Some ''UTO'',
      mrz_surname = Some ''ERIKSSON'', mrz_givenNames = Some ''ANNA'',
      mrz_documentNumber = Some ''L898902C'', mrz_nationality = Some ''UTO'',
      mrz_dateOfBirth = Some ''1969-08-06'', mrz_sex = Some ''F'',
      mrz_expiryDate = Some ''1994-06-23''\<rparr>"
    by code_simp
  have p1: "parsedData (validateMRZ damaged_td1) =
     \<lparr>mrz_documentType = Some ''I'', mrz_issuingCountry = Some ''UTO'',
      mrz_surname = Some ''ERIKSSON'', mrz_givenNames = Some ''ANNA MARIA'',
      mrz_documentNumber = Some ''D23145890'', mrz_nationality = Some ''UTO'',
      mrz_dateOfBirth = Some ''1974-08-12'', mrz_sex = Some ''F'',
      mrz_expiryDate = Some ''2012-04-15''\<rparr>"
    by code_simp
  have v3: "valid (validateMRZ damaged_td3) \<longleftrightarrow> errors (validateMRZ damaged_td3) = []"
    using errors_are_not_fatal
      [of "''P<UTOERIKSSON<<ANNA''" "''L898902C<4UTO6908062F9406237ZE184226B<<<<<27<''"]
    by (simp add: damaged_td3_def Let_def)
  have v1: "valid (validateMRZ damaged_td1) \<longleftrightarrow> errors (validateMRZ damaged_td1) = []"
    using errors_are_not_fatal
      [of _ _ "''I<UTOD231458908<<<<<<<<<<<<<<<<''" "''7408123F1204150UTO<<<<<<<<<<<6<''"
          "''ERIKSSON<<ANNA<MARIA''"]
    by (simp add: damaged_td1_def Let_def)
  show ?thesis
    using e3 e1 p3 p1 v3 v1 by simp
qed

section \<open>Properties of the field extractor\<close>

lemma confidence_extractFields:
  "confidence (documentType (extractFields m text p c)) = (if p \<noteq> None then c else 80)"
  "confidence (documentNumber (extractFields m text p c)) = (if p \<noteq> None then c else 75)"
  "confidence (surname (extractFields m text p c)) = (if p \<noteq> None then c else 75)"
  "confidence (givenNames (extractFields m text p c)) = (if p \<noteq> None then c else 75)"
  "confidence (nationality (extractFields m text p c)) = (if p \<noteq> None then c else 80)"
  "confidence (issuingCountry (extractFields m text p c)) = (if p \<noteq> None then c else 80)"
  "confidence (dateOfBirth (extractFields m text p c)) = (if p \<noteq> None then c else 70)"
  "confidence (sex (extractFields m text p c)) = (if p \<noteq> None then c else 85)"
  "confidence (expiryDate (extractFields m text p c)) = (if p \<noteq> None then c else 70)"
  "confidence (issueDate (extractFields m text p c)) = 70"
  by (simp_all add: extractFields_def Let_def)

text \<open>
  Claim C6 (confidence by provenance), as the code decides it. In \<open>one_line_text\<close> a
  single line of the zone is found, so the zone does not parse and its record has no
  field. The document type \<open>P\<close> then comes from the keyword PASSPORT of the text, a
  heuristic, and yet its confidence is 60, the score of an invalid zone, not the
  heuristic score 80.
\<close>

theorem heuristic_field_counterexample:
  "mrz_documentType (parsedData (validateMRZ (extractMRZ one_line_text))) = None \<and>
   extractDocumentType one_line_text = ''P'' \<and>
   documentType (processText (unmatched ''2026-11-02'') one_line_text) =
     \<lparr>field_value = ''P'', confidence = 60\<rparr>"
  by code_simp

text \<open>
  Claim C6, amended. The confidence of a field follows the zone as a whole, not the
  origin of the field's own value. When the text holds no line of a zone, the fields
  get their heuristic scores: document type 80, document number 75, surname 75, given
  names 75, nationality 80, issuing country 80, date of birth 70, sex 85, expiry date
  70. When it holds at least one, each of these nine fields gets 95 if the zone is
  valid and 60 if it is not, also where the zone did not supply the field and a
  heuristic filled it. The issue date always gets 70.
\<close>

theorem confidence_follows_zone:
  "(let d = processText m text;
        found = (extractMRZ text \<noteq> []);
        score = (if valid (validateMRZ (extractMRZ text)) then 95 else 60)
    in confidence (documentType d) = (if found then score else 80) \<and>
       confidence (documentNumber d) = (if found then score else 75) \<and>
       confidence (surname d) = (if found then score else 75) \<and>
       confidence (givenNames d) = (if found then score else 75) \<and>
       confidence (nationality d) = (if found then score else 80) \<and>
       confidence (issuingCountry d) = (if found then score else 80) \<and>
       confidence (dateOfBirth d) = (if found then score else 70) \<and>
       confidence (sex d) = (if found then score else 85) \<and>
       confidence (expiryDate d) = (if found then score else 70) \<and>
       confidence (issueDate d) = 70)"
  by (simp add: processText_def Let_def confidence_extractFields)

text \<open>A text without a zone, a text with a valid zone and the text with one line.\<close>

theorem confidence_follows_zone_witness:
  "extractMRZ plain_text = [] \<and>
   confidence (documentType (processText (unmatched ''2026-11-02'') plain_text)) = 80 \<and>
   confidence (sex (processText (unmatched ''2026-11-02'') plain_text)) = 85 \<and>
   valid (validateMRZ (extractMRZ valid_zone_text)) \<and>
   confidence (surname (processText (unmatched ''2026-11-02'') valid_zone_text)) = 95 \<and>
   confidence (issueDate (processText (unmatched ''2026-11-02'') valid_zone_text)) = 70 \<and>
   confidence (surname (processText (unmatched ''2026-11-02'') one_line_text)) = 60"
proof -
  have none: "extractMRZ plain_text = []"
    by code_simp
  have two: "length (extractMRZ valid_zone_text) = 2"
    by code_simp
  have ok: "valid (validateMRZ (extractMRZ valid_zone_text))"
    by code_simp
  have one: "length (extractMRZ one_line_text) = 1"
    by code_simp
  have bad: "\<not> valid (validateMRZ (extractMRZ one_line_text))"
    by code_simp
  from two have found2: "extractMRZ valid_zone_text \<noteq> []"
    by auto
  from one have found1: "extractMRZ one_line_text \<noteq> []"
    by auto
  show ?thesis
    using confidence_follows_zone [of "unmatched ''2026-11-02''" plain_text]
      confidence_follows_zone [of "unmatched ''2026-11-02''" valid_zone_text]
      confidence_follows_zone [of "unmatched ''2026-11-02''" one_line_text]
      none ok bad found1 found2
    by (simp add: Let_def)
qed

section \<open>Properties of the checks\<close>

text \<open>
  Claim C5 (document expiry), as the code decides it. For an expiry date the host can
  read, the check passes exactly when that date is not before today. For an expiry date
  the host cannot read, the constructor returns an Invalid Date instead of throwing, the
  comparison with today is false, and the check passes with the message
  \<open>Document valid until\<close> followed by the unreadable text; the \<open>catch\<close> branch with
  its message \<open>Invalid expiry date format\<close> is never taken.
\<close>

theorem expiry_check_of_unreadable_date:
  "(Date (field_value (expiryDate data)) = None \<longrightarrow>
      checkDocumentExpiry Date today data =
        \<lparr>check_name = ''Document Expiry'', passed = True,
         message = ''Document valid until '' @ field_value (expiryDate data)\<rparr>) \<and>
   (\<forall>e. Date (field_value (expiryDate data)) = Some e \<longrightarrow>
      passed (checkDocumentExpiry Date today data) = (\<not> getTime e < getTime today))"
  by (simp add: checkDocumentExpiry_def try_checkDocumentExpiry_def Let_def)

text \<open>The expiry field \<open><<<<<<\<close> of a zone decodes to the text \<open>NaN-<<-<<\<close>, which is
  not a date; the check passes on it. The dates 2000-01-01 and 2031-06-23 are read, and
  the check fails on the first and passes on the second.\<close>

theorem expiry_check_of_unreadable_date_witness:
  "parseMRZDate ''<<<<<<'' = ''NaN-<<-<<'' \<and>
   iso_date_host ''NaN-<<-<<'' = None \<and>
   checkDocumentExpiry iso_date_host sample_today
     (sample_document\<lparr>expiryDate := \<lparr>field_value = ''NaN-<<-<<'', confidence = 60\<rparr>\<rparr>) =
     \<lparr>check_name = ''Document Expiry'', passed = True,
      message = ''Document valid until NaN-<<-<<''\<rparr> \<and>
   \<not> passed (checkDocumentExpiry iso_date_host sample_today
     (sample_document\<lparr>expiryDate := \<lparr>field_value = ''2000-01-01'', confidence = 95\<rparr>\<rparr>)) \<and>
   passed (checkDocumentExpiry iso_date_host sample_today sample_document)"
proof -
  have decode: "parseMRZDate ''<<<<<<'' = ''NaN-<<-<<''"
    by code_simp
  have unreadable: "iso_date_host ''NaN-<<-<<'' = None"
    by code_simp
  have old: "iso_date_host ''2000-01-01'' =
      Some \<lparr>getTime = 946684800000, getFullYear = 2000, getMonth = 0, getDate = 1\<rparr>"
    by code_simp
  have new: "iso_date_host ''2031-06-23'' =
      Some \<lparr>getTime = 1939939200000, getFullYear = 2031, getMonth = 5, getDate = 23\<rparr>"
    by code_simp
  have now: "getTime sample_today = 1793620800000"
    by code_simp
  show ?thesis
    using decode unreadable old new now
      expiry_check_of_unreadable_date [of iso_date_host
        "sample_document\<lparr>expiryDate := \<lparr>field_value = ''NaN-<<-<<'', confidence = 60\<rparr>\<rparr>"
        sample_today]
      expiry_check_of_unreadable_date [of iso_date_host
        "sample_document\<lparr>expiryDate := \<lparr>field_value = ''2000-01-01'', confidence = 95\<rparr>\<rparr>"
        sample_today]
      expiry_check_of_unreadable_date [of iso_date_host sample_document sample_today]
    by (simp add: sample_document_def)
qed

text \<open>
  Claim C7 (nationality eligibility). The check passes exactly when the nationality is
  not in the blocked list and the allowed list is empty or holds it. A blocked
  nationality fails with the message of the blocked list, whatever the allowed list is.
  Under the default policy the nationality \<open>PRK\<close> fails, whatever the other fields are.
\<close>

theorem nationality_eligibility:
  "(passed (checkNationalityEligibility data policy) \<longleftrightarrow>
      field_value (nationality data) \<notin> set (blockedNationalities policy) \<and>
      (allowedNationalities policy = [] \<or>
       field_value (nationality data) \<in> set (allowedNationalities policy))) \<and>
   (field_value (nationality data) \<in> set (blockedNationalities policy) \<longrightarrow>
      checkNationalityEligibility data policy =
        \<lparr>check_name = ''Nationality Eligibility'', passed = False,
         message = ''Nationality '' @ field_value (nationality data)
                   @ '' is not eligible for visa''\<rparr>) \<and>
   (field_value (nationality data) = ''PRK'' \<longrightarrow>
      \<not> passed (checkNationalityEligibility data defaultEligibilityPolicy))"
  by (simp add: checkNationalityEligibility_def defaultEligibilityPolicy_def Let_def)

text \<open>A document of nationality \<open>PRK\<close> under the default policy, and the sample
  document of nationality \<open>UTO\<close>.\<close>

theorem nationality_eligibility_witness:
  "field_value (nationality
     (sample_document\<lparr>nationality := \<lparr>field_value = ''PRK'', confidence = 95\<rparr>\<rparr>)) = ''PRK'' \<and>
   checkNationalityEligibility
     (sample_document\<lparr>nationality := \<lparr>field_value = ''PRK'', confidence = 95\<rparr>\<rparr>)
     defaultEligibilityPolicy =
     \<lparr>check_name = ''Nationality Eligibility'', passed = False,
      message = ''Nationality PRK is not eligible for visa''\<rparr> \<and>
   passed (checkNationalityEligibility sample_document defaultEligibilityPolicy)"
  using nationality_eligibility
      [of "sample_document\<lparr>nationality := \<lparr>field_value = ''PRK'', confidence = 95\<rparr>\<rparr>"
          defaultEligibilityPolicy]
    nationality_eligibility [of sample_document defaultEligibilityPolicy]
  by (simp add: sample_document_def defaultEligibilityPolicy_def)

text \<open>
  Claim C8 (name match), as the code decides it. The document name \<open>JOHN SMITH\<close> and
  the claimed name \<open>Jon Smith\<close> differ by a letter, not only by case or white space, so
  the check fails on them.
\<close>

theorem name_match_counterexample:
  "\<not> passed (checkNameMatch sample_document (sample_applicant\<lparr>applicant_name := ''Jon Smith''\<rparr>))"
  by code_simp

text \<open>
  Claim C8, amended. The check passes exactly when the lowercased, trimmed text
  \<open>givenNames surname\<close> of the document equals the lowercased, trimmed claimed name.
  For the document name \<open>JOHN SMITH\<close>: the claims \<open>Jon Smith\<close> and \<open>Jane Smith\<close> fail,
  each with both names quoted in the message, and a claim that differs in case and
  outer white space only passes.
\<close>

theorem name_match_exact:
  "(passed (checkNameMatch data applicant) \<longleftrightarrow>
      trim (toLowerCase (field_value (givenNames data) @ '' '' @ field_value (surname data)))
        = trim (toLowerCase (applicant_name applicant))) \<and>
   checkNameMatch sample_document (sample_applicant\<lparr>applicant_name := ''Jon Smith''\<rparr>) =
     \<lparr>check_name = ''Name Match'', passed = False,
      message = ''Name mismatch: Document shows '' @ [CHR 0x22] @ ''john smith'' @ [CHR 0x22]
                @ '', applicant claims '' @ [CHR 0x22] @ ''jon smith'' @ [CHR 0x22]\<rparr> \<and>
   checkNameMatch sample_document (sample_applicant\<lparr>applicant_name := ''Jane Smith''\<rparr>) =
     \<lparr>check_name = ''Name Match'', passed = False,
      message = ''Name mismatch: Document shows '' @ [CHR 0x22] @ ''john smith'' @ [CHR 0x22]
                @ '', applicant claims '' @ [CHR 0x22] @ ''jane smith'' @ [CHR 0x22]\<rparr> \<and>
   checkNameMatch sample_document (sample_applicant\<lparr>applicant_name := ''  john SMITH ''\<rparr>) =
     \<lparr>check_name = ''Name Match'', passed = True,
      message = ''Applicant name matches document''\<rparr>"
proof (intro conjI)
  show "passed (checkNameMatch data applicant) \<longleftrightarrow>
      trim (toLowerCase (field_value (givenNames data) @ '' '' @ field_value (surname data)))
        = trim (toLowerCase (applicant_name applicant))"
    by (simp add: checkNameMatch_def Let_def)
  show "checkNameMatch sample_document (sample_applicant\<lparr>applicant_name := ''Jon Smith''\<rparr>) =
     \<lparr>check_name = ''Name Match'', passed = False,
      message = ''Name mismatch: Document shows '' @ [CHR 0x22] @ ''john smith'' @ [CHR 0x22]
                @ '', applicant claims '' @ [CHR 0x22] @ ''jon smith'' @ [CHR 0x22]\<rparr>"
    by code_simp
  show "checkNameMatch sample_document (sample_applicant\<lparr>applicant_name := ''Jane Smith''\<rparr>) =
     \<lparr>check_name = ''Name Match'', passed = False,
      message = ''Name mismatch: Document shows '' @ [CHR 0x22] @ ''john smith'' @ [CHR 0x22]
                @ '', applicant claims '' @ [CHR 0x22] @ ''jane smith'' @ [CHR 0x22]\<rparr>"
    by code_simp
  show "checkNameMatch sample_document (sample_applicant\<lparr>applicant_name := ''  john SMITH ''\<rparr>) =
     \<lparr>check_name = ''Name Match'', passed = True,
      message = ''Applicant name matches document''\<rparr>"
    by code_simp
qed

text \<open>
  Claim C9 (age requirements), as the code decides it. The minimum age is taken with
  \<open>visaTypeReq?.minAge || policy.minAge\<close>, so a minimum age of the visa type that is
  present and not 0 is used, and a missing entry or a missing minimum age falls back to
  the minimum age of the policy; but a present minimum age of 0 falls back to the
  minimum age of the policy as well. In each case the age must also be at most the
  maximum age of the policy, and an age that cannot be computed fails.
\<close>

theorem age_requirement_minimum:
  "(\<forall>r n. visaTypeRequirements policy (intendedVisaType applicant) = Some r \<and>
           req_minAge r = Some n \<and> n \<noteq> 0 \<longrightarrow>
      passed (checkAgeRequirements Date today data applicant policy) =
        (case age_on today (Date (field_value (dateOfBirth data))) of
           None \<Rightarrow> False | Some a \<Rightarrow> n \<le> a \<and> a \<le> maxAge policy)) \<and>
   (\<forall>r. visaTypeRequirements policy (intendedVisaType applicant) = Some r \<and>
         req_minAge r = Some 0 \<longrightarrow>
      passed (checkAgeRequirements Date today data applicant policy) =
        (case age_on today (Date (field_value (dateOfBirth data))) of
           None \<Rightarrow> False | Some a \<Rightarrow> minAge policy \<le> a \<and> a \<le> maxAge policy)) \<and>
   (visaTypeRequirements policy (intendedVisaType applicant) = None \<or>
    (\<exists>r. visaTypeRequirements policy (intendedVisaType applicant) = Some r \<and>
         req_minAge r = None) \<longrightarrow>
      passed (checkAgeRequirements Date today data applicant policy) =
        (case age_on today (Date (field_value (dateOfBirth data))) of
           None \<Rightarrow> False | Some a \<Rightarrow> minAge policy \<le> a \<and> a \<le> maxAge policy))"
  by (auto simp: checkAgeRequirements_def try_checkAgeRequirements_def Let_def number_or_def
      split: option.splits)

text \<open>A holder born on 2016-05-15 is 10 years old on 2 November 2026. The tourist entry
  of the policy has the minimum age 0 and the policy the ages 18 to 120: the age is
  within 0 to 120, and the check fails on it, naming the range 18 to 120.\<close>

theorem age_requirement_minimum_witness:
  "visaTypeRequirements child_friendly_policy (intendedVisaType sample_applicant) =
     Some \<lparr>req_minAge = Some 0, req_allowedNationalities = None,
           req_additionalRequirements = None\<rparr> \<and>
   age_on sample_today (iso_date_host (field_value (dateOfBirth sample_document))) = Some 10 \<and>
   maxAge child_friendly_policy = 120 \<and>
   minAge child_friendly_policy = 18 \<and>
   checkAgeRequirements iso_date_host sample_today sample_document sample_applicant
     child_friendly_policy =
     \<lparr>check_name = ''Age Requirements'', passed = False,
      message = ''Age 10 does not meet requirements (18-120)''\<rparr>"
proof -
  have entry: "visaTypeRequirements child_friendly_policy (intendedVisaType sample_applicant) =
     Some \<lparr>req_minAge = Some 0, req_allowedNationalities = None,
           req_additionalRequirements = None\<rparr>"
    by (simp add: child_friendly_policy_def sample_applicant_def)
  have age: "age_on sample_today (iso_date_host (field_value (dateOfBirth sample_document))) = Some 10"
    by code_simp
  have bounds: "maxAge child_friendly_policy = 120" "minAge child_friendly_policy = 18"
    by (simp_all add: child_friendly_policy_def defaultEligibilityPolicy_def)
  have fails: "\<not> passed (checkAgeRequirements iso_date_host sample_today sample_document
      sample_applicant child_friendly_policy)"
    using age_requirement_minimum
      [of child_friendly_policy sample_applicant iso_date_host sample_today sample_document]
      entry age bounds
    by simp
  have msg: "message (checkAgeRequirements iso_date_host sample_today sample_document
      sample_applicant child_friendly_policy) = ''Age 10 does not meet requirements (18-120)''"
    by code_simp
  have nm: "check_name (checkAgeRequirements iso_date_host sample_today sample_document
      sample_applicant child_friendly_policy) = ''Age Requirements''"
    by (simp add: checkAgeRequirements_def try_checkAgeRequirements_def Let_def)
  have whole: "checkAgeRequirements iso_date_host sample_today sample_document sample_applicant
      child_friendly_policy =
     \<lparr>check_name = ''Age Requirements'', passed = False,
      message = ''Age 10 does not meet requirements (18-120)''\<rparr>"
    using fails msg nm by (cases "checkAgeRequirements iso_date_host sample_today
      sample_document sample_applicant child_friendly_policy") simp
  show ?thesis
    using entry age bounds whole by simp
qed

text \<open>
  Claim C10 (visa type requirements under the default policy). An entry whose
  \<open>allowedNationalities\<close> is present and empty lets no nationality through: the check
  fails for every document. The four entries of the default policy, tourist, business,
  student and work, are such entries, so under the default policy the check fails for
  each of these visa types whatever the nationality is. The empty list of the policy
  itself is read the other way by the nationality check: it restricts nothing.
\<close>

theorem visa_type_empty_list_excludes_all:
  "(\<forall>r. visaTypeRequirements policy (intendedVisaType applicant) = Some r \<and>
         req_allowedNationalities r = Some [] \<longrightarrow>
      \<not> passed (checkVisaTypeRequirements data applicant policy)) \<and>
   (intendedVisaType applicant \<in> {''tourist'', ''business'', ''student'', ''work''} \<longrightarrow>
      checkVisaTypeRequirements data applicant defaultEligibilityPolicy =
        \<lparr>check_name = ''Visa Type Requirements'', passed = False,
         message = ''Nationality '' @ field_value (nationality data) @ '' not eligible for ''
                   @ intendedVisaType applicant @ '' visa''\<rparr>) \<and>
   (allowedNationalities policy = [] \<and>
    field_value (nationality data) \<notin> set (blockedNationalities policy) \<longrightarrow>
      passed (checkNationalityEligibility data policy))"
proof (intro conjI)
  show "\<forall>r. visaTypeRequirements policy (intendedVisaType applicant) = Some r \<and>
         req_allowedNationalities r = Some [] \<longrightarrow>
      \<not> passed (checkVisaTypeRequirements data applicant policy)"
    by (simp add: checkVisaTypeRequirements_def Let_def)
  show "intendedVisaType applicant \<in> {''tourist'', ''business'', ''student'', ''work''} \<longrightarrow>
      checkVisaTypeRequirements data applicant defaultEligibilityPolicy =
        \<lparr>check_name = ''Visa Type Requirements'', passed = False,
         message = ''Nationality '' @ field_value (nationality data) @ '' not eligible for ''
                   @ intendedVisaType applicant @ '' visa''\<rparr>"
    by (auto simp: checkVisaTypeRequirements_def defaultEligibilityPolicy_def Let_def)
  show "allowedNationalities policy = [] \<and>
    field_value (nationality data) \<notin> set (blockedNationalities policy) \<longrightarrow>
      passed (checkNationalityEligibility data policy)"
    by (simp add: checkNationalityEligibility_def Let_def)
qed

text \<open>The sample document and applicant, for each of the four visa types.\<close>

theorem visa_type_empty_list_excludes_all_witness:
  "checkVisaTypeRequirements sample_document sample_applicant defaultEligibilityPolicy =
     \<lparr>check_name = ''Visa Type Requirements'', passed = False,
      message = ''Nationality UTO not eligible for tourist visa''\<rparr> \<and>
   \<not> passed (checkVisaTypeRequirements sample_document
        (sample_applicant\<lparr>intendedVisaType := ''business''\<rparr>) defaultEligibilityPolicy) \<and>
   \<not> passed (checkVisaTypeRequirements sample_document
        (sample_applicant\<lparr>intendedVisaType := ''student''\<rparr>) defaultEligibilityPolicy) \<and>
   \<not> passed (checkVisaTypeRequirements sample_document
        (sample_applicant\<lparr>intendedVisaType := ''work''\<rparr>) defaultEligibilityPolicy) \<and>
   passed (checkNationalityEligibility sample_document defaultEligibilityPolicy)"
  using visa_type_empty_list_excludes_all
      [of defaultEligibilityPolicy sample_applicant sample_document]
    visa_type_empty_list_excludes_all
      [of defaultEligibilityPolicy "sample_applicant\<lparr>intendedVisaType := ''business''\<rparr>"
          sample_document]
    visa_type_empty_list_excludes_all
      [of defaultEligibilityPolicy "sample_applicant\<lparr>intendedVisaType := ''student''\<rparr>"
          sample_document]
    visa_type_empty_list_excludes_all
      [of defaultEligibilityPolicy "sample_applicant\<lparr>intendedVisaType := ''work''\<rparr>"
          sample_document]
  by (simp add: sample_applicant_def sample_document_def defaultEligibilityPolicy_def)

end
